theory Spec2Isabelle
  imports Main "HOL-Library.Word"
begin

unbundle bit_operations_syntax

section \<open>Machine types\<close>

text \<open>
  C integers are fixed-width words: \<open>int\<close> and \<open>unsigned int\<close> are 32 bits,
  \<open>uint16_t\<close> 16 bits, \<open>uint64_t\<close>, \<open>size_t\<close>, \<open>ssize_t\<close> and
  \<open>fi_addr_t\<close> 64 bits. A signed value is read with \<open>sint\<close>, an unsigned one with
  \<open>uint\<close> or \<open>unat\<close>. A C truth value is an \<open>int\<close>: 1 or 0.
\<close>

type_synonym c_int = "32 word"
type_synonym uint16_t = "16 word"
type_synonym uint32_t = "32 word"
type_synonym uint64_t = "64 word"
type_synonym size_t = "64 word"
type_synonym ssize_t = "64 word"
type_synonym fi_addr_t = "64 word"

definition c_truth :: "bool \<Rightarrow> c_int" where
  "c_truth b = (if b then 1 else 0)"

section \<open>Constants of rxr.h\<close>

text \<open>
  Modelled from the spec: the macro \<open>BIT_ULL\<close> comes from a header that is not among
  the sources; \<open>BIT_ULL(n)\<close> is the 64-bit value with only bit \<open>n\<close> set (the spec gives
  the MTU bound as a power of two).
\<close>

definition BIT_ULL :: "nat \<Rightarrow> uint64_t" where
  "BIT_ULL nr = push_bit nr 1"

definition RXR_MAJOR_VERSION :: c_int where "RXR_MAJOR_VERSION = 2"
definition RXR_MINOR_VERSION :: c_int where "RXR_MINOR_VERSION = 0"
definition RXR_PROTOCOL_VERSION :: c_int where "RXR_PROTOCOL_VERSION = 4"
definition RXR_IOV_LIMIT :: c_int where "RXR_IOV_LIMIT = 4"
definition RXR_RECVWIN_SIZE :: c_int where "RXR_RECVWIN_SIZE = 16384"
definition RXR_DEF_CQ_SIZE :: c_int where "RXR_DEF_CQ_SIZE = 8192"
definition RXR_DEF_RNR_MAX_TIMEOUT :: c_int where "RXR_DEF_RNR_MAX_TIMEOUT = 1000000"
definition RXR_RAND_MIN_TIMEOUT :: c_int where "RXR_RAND_MIN_TIMEOUT = 40"
definition RXR_RAND_MAX_TIMEOUT :: c_int where "RXR_RAND_MAX_TIMEOUT = 120"
definition RXR_DEF_MAX_RX_WINDOW :: c_int where "RXR_DEF_MAX_RX_WINDOW = 128"
definition RXR_DEF_MAX_TX_CREDITS :: c_int where "RXR_DEF_MAX_TX_CREDITS = 64"
definition RXR_DEF_MIN_TX_CREDITS :: c_int where "RXR_DEF_MIN_TX_CREDITS = 32"
definition RXR_MAX_NAME_LENGTH :: c_int where "RXR_MAX_NAME_LENGTH = 32"
definition RXR_MTU_MAX_LIMIT :: uint64_t where "RXR_MTU_MAX_LIMIT = BIT_ULL 15"

section \<open>Matching predicates\<close>

text \<open>
  \<open>rxr_match_addr\<close> and \<open>rxr_match_tag\<close> of rxr.h. The wildcard address
  \<open>FI_ADDR_UNSPEC\<close> is defined in a header that is not among the sources, so it is a
  parameter.
\<close>

definition rxr_match_addr :: "fi_addr_t \<Rightarrow> fi_addr_t \<Rightarrow> fi_addr_t \<Rightarrow> c_int" where
  "rxr_match_addr FI_ADDR_UNSPEC addr match_addr =
     c_truth (addr = FI_ADDR_UNSPEC \<or> addr = match_addr)"

definition rxr_match_tag :: "uint64_t \<Rightarrow> uint64_t \<Rightarrow> uint64_t \<Rightarrow> c_int" where
  "rxr_match_tag tag ignore match_tag =
     c_truth ((tag OR ignore) = (match_tag OR ignore))"

section \<open>Faults\<close>

text \<open>
  A failed \<open>assert\<close> and an access through a pointer that is not valid end the run;
  both are results of the model. (With \<open>NDEBUG\<close> an \<open>assert\<close> is compiled out;
  every theorem below assumes the asserted condition, where the two builds agree.)
\<close>

datatype fault = AssertFailed | BadPointer

section \<open>Configuration and per-peer state (rxr.h)\<close>

text \<open>
  \<open>struct rxr_env\<close>, the fields read by the functions below; all are \<open>int\<close>.
\<close>

record rxr_env =
  rx_window_size :: c_int
  tx_max_credits :: c_int
  enable_sas_ordering :: c_int
  recvwin_size :: c_int
  max_timeout :: c_int

text \<open>
  Modelled from the spec: the receive window type \<open>struct rxr_robuf\<close> is generated by
  a header that is not among the sources. By the spec the window has \<open>size\<close> slots
  indexed by \<open>msg_id mod size\<close>, each holding a deferred packet or nothing, and
  tracks the expected message id.
\<close>

record rxr_robuf =
  exp_msg_id :: uint32_t
  win_size :: uint32_t
  pending :: "nat option list"

text \<open>
  Modelled from the spec: the allocator \<open>ofi_recvwin_buf_alloc\<close> is generated by the
  same missing header. It fills in a window taken from the free stack: \<open>size\<close> slots,
  all empty, and the expected message id 0. (Failure of the underlying memory
  allocation is not modelled.)
\<close>

definition ofi_recvwin_buf_alloc :: "rxr_robuf \<Rightarrow> uint32_t \<Rightarrow> rxr_robuf" where
  "ofi_recvwin_buf_alloc recvq size' =
     recvq\<lparr>exp_msg_id := 0, win_size := size', pending := replicate (unat size') None\<rparr>"

text \<open>
  Modelled from the spec: \<open>freestack_pop\<close> comes from a header that is not among the
  sources. A free stack is the stack of the free slots of an arena; popping takes
  the top slot, and an empty stack yields nothing.
\<close>

definition freestack_pop :: "'a list \<Rightarrow> ('a \<times> 'a list) option" where
  "freestack_pop fs = (case fs of [] \<Rightarrow> None | x # xs \<Rightarrow> Some (x, xs))"

text \<open>
  Modelled from the spec: \<open>freestack_push\<close> comes from the same missing header. It
  puts a slot back on top of the free stack.
\<close>

definition freestack_push :: "'a list \<Rightarrow> 'a \<Rightarrow> 'a list" where
  "freestack_push fs x = x # fs"

datatype rxr_peer_state = RXR_PEER_FREE | RXR_PEER_CONNREQ | RXR_PEER_ACKED

text \<open>
  \<open>struct rxr_peer\<close>. The two list links \<open>rnr_entry\<close> and \<open>entry\<close> are modelled by
  membership of the peer in the endpoint's lists.
\<close>

record rxr_peer =
  tx_init :: bool
  rx_init :: bool
  is_local :: bool
  shm_fiaddr :: fi_addr_t
  robuf :: "rxr_robuf option"
  next_msg_id :: uint32_t
  state :: rxr_peer_state
  rnr_state :: uint32_t
  tx_pending :: size_t
  tx_credits :: uint16_t
  rx_credits :: uint16_t
  rnr_ts :: uint64_t
  rnr_queued_pkt_cnt :: c_int
  timeout_interval :: c_int
  rnr_timeout_exp :: c_int

text \<open>
  \<open>struct rxr_ep\<close>, the fields the functions below touch. \<open>peer\<close> is the per-peer
  array; a \<open>struct rxr_peer *\<close> is an index into it (\<open>rxr_ep_get_peer\<close> returns
  \<open>&ep->peer[addr]\<close>). The endpoint's own counter \<open>tx_pending\<close> is named
  \<open>ep_tx_pending\<close> here, the peer's keeps the name. The lists are lists of peer indices
  and of entry addresses. \<open>tx_entry_list\<close>, \<open>rx_entry_list\<close>, \<open>sends\<close> and
  \<open>failed_send_comps\<close> exist only in builds with \<open>ENABLE_DEBUG\<close>.
\<close>

record rxr_ep =
  peer :: "rxr_peer list"
  robuf_fs :: "rxr_robuf list"
  msg_order :: uint64_t
  core_msg_order :: uint64_t
  peer_list :: "nat list"
  ep_tx_pending :: size_t
  tx_entry_list :: "nat list"
  rx_entry_list :: "nat list"
  sends :: size_t
  failed_send_comps :: size_t

definition rxr_ep_get_peer :: "rxr_ep \<Rightarrow> fi_addr_t \<Rightarrow> nat" where
  "rxr_ep_get_peer ep addr = unat addr"

definition rxr_ep_peer_init :: "rxr_env \<Rightarrow> rxr_ep \<Rightarrow> nat \<Rightarrow> fault + rxr_ep" where
  "rxr_ep_peer_init rxr_env ep p =
     (if length (peer ep) \<le> p then Inl BadPointer
      else if rx_init (peer ep ! p) then Inl AssertFailed
      else
        (case freestack_pop (robuf_fs ep) of
           None \<Rightarrow> Inl AssertFailed
         | Some (r, fs) \<Rightarrow>
             let p1 = (peer ep ! p)
                   \<lparr>robuf := Some (ofi_recvwin_buf_alloc r (recvwin_size rxr_env))\<rparr>;
                 p2 = p1\<lparr>rx_credits := ucast (rx_window_size rxr_env), rx_init := True\<rparr>;
                 p3 = (if \<not> tx_init p2
                       then p2\<lparr>tx_credits := ucast (tx_max_credits rxr_env), tx_init := True\<rparr>
                       else p2)
             in Inr (ep\<lparr>peer := (peer ep)[p := p3], robuf_fs := fs,
                        peer_list := peer_list ep @ [p]\<rparr>)))"

definition rxr_ep_inc_tx_pending :: "bool \<Rightarrow> rxr_ep \<Rightarrow> nat \<Rightarrow> fault + rxr_ep" where
  "rxr_ep_inc_tx_pending ENABLE_DEBUG ep p =
     (if length (peer ep) \<le> p then Inl BadPointer
      else
        let ep1 = ep\<lparr>ep_tx_pending := ep_tx_pending ep + 1\<rparr>;
            ep2 = ep1\<lparr>peer := (peer ep1)
                    [p := (peer ep1 ! p)\<lparr>tx_pending := tx_pending (peer ep1 ! p) + 1\<rparr>]\<rparr>
        in Inr (if ENABLE_DEBUG then ep2\<lparr>sends := sends ep2 + 1\<rparr> else ep2))"

definition rxr_ep_dec_tx_pending :: "bool \<Rightarrow> rxr_ep \<Rightarrow> nat \<Rightarrow> c_int \<Rightarrow> fault + rxr_ep" where
  "rxr_ep_dec_tx_pending ENABLE_DEBUG ep p failed =
     (if length (peer ep) \<le> p then Inl BadPointer
      else
        let ep1 = ep\<lparr>ep_tx_pending := ep_tx_pending ep - 1\<rparr>;
            ep2 = ep1\<lparr>peer := (peer ep1)
                    [p := (peer ep1 ! p)\<lparr>tx_pending := tx_pending (peer ep1 ! p) - 1\<rparr>]\<rparr>
        in Inr (if ENABLE_DEBUG \<and> failed \<noteq> 0
                then ep2\<lparr>failed_send_comps := failed_send_comps ep2 + 1\<rparr> else ep2))"

text \<open>
  \<open>rxr_need_sas_ordering\<close>. The flag \<open>FI_ORDER_SAS\<close> is defined in a header that is not
  among the sources, so it is a parameter.
\<close>

definition rxr_need_sas_ordering :: "uint64_t \<Rightarrow> rxr_env \<Rightarrow> rxr_ep \<Rightarrow> c_int" where
  "rxr_need_sas_ordering FI_ORDER_SAS rxr_env ep =
     c_truth ((msg_order ep AND FI_ORDER_SAS) \<noteq> 0 \<and>
              \<not> (core_msg_order ep AND FI_ORDER_SAS) \<noteq> 0 \<and>
              enable_sas_ordering rxr_env \<noteq> 0)"

text \<open>
  The values of a C \<open>int\<close>.
\<close>

definition c_int_range :: "int \<Rightarrow> bool" where
  "c_int_range v \<longleftrightarrow> - (2 ^ 31) \<le> v \<and> v < 2 ^ 31"

text \<open>
  Modelled from the spec: the macro \<open>MIN\<close> comes from a header that is not among the
  sources; it is the smaller of its two operands (the spec writes \<open>min\<close>), here of
  two \<open>int\<close> values.
\<close>

definition MIN' :: "int \<Rightarrow> int \<Rightarrow> int" where
  "MIN' a b = (if a < b then a else b)"

text \<open>
  \<open>rxr_peer_timeout_expired\<close>. The operands \<open>max_timeout\<close>, \<open>timeout_interval\<close> and
  \<open>rnr_timeout_exp\<close> are \<open>int\<close>, so the shift, the product and \<open>MIN\<close> are computed in
  \<open>int\<close>. C leaves the shift undefined for a negative count or when \<open>2 ^ count\<close> is
  not an \<open>int\<close>, and the product undefined when it overflows: the model returns
  \<open>None\<close> there. The \<open>int\<close> is then converted to \<open>uint64_t\<close> and added to \<open>rnr_ts\<close>
  modulo \<open>2 ^ 64\<close>.
\<close>

definition rxr_peer_timeout_expired :: "rxr_env \<Rightarrow> rxr_peer \<Rightarrow> uint64_t \<Rightarrow> bool option" where
  "rxr_peer_timeout_expired rxr_env p ts =
     (let e = sint (rnr_timeout_exp p) in
      if e < 0 \<or> 31 \<le> e then None
      else
        let prod = sint (timeout_interval p) * 2 ^ nat e in
        if \<not> c_int_range prod then None
        else
          let backoff = MIN' (sint (max_timeout rxr_env)) prod
          in Some (rnr_ts p + word_of_int backoff \<le> ts))"

text \<open>
  A sequence of calls of \<open>rxr_ep_inc_tx_pending\<close> and \<open>rxr_ep_dec_tx_pending\<close> on one
  endpoint, run in order. \<open>tx_pending_sum\<close> adds the per-peer counters as \<open>size_t\<close>
  values, \<open>tx_pending_total\<close> as natural numbers. A sequence is \<open>paired\<close> when every
  decrement for a peer answers an earlier increment for that peer that has not been
  answered yet; \<open>out\<close> counts the increments still open.
\<close>

datatype tx_pending_call = Inc_tx_pending nat | Dec_tx_pending nat c_int

fun tx_pending_step :: "bool \<Rightarrow> rxr_ep \<Rightarrow> tx_pending_call \<Rightarrow> fault + rxr_ep" where
  "tx_pending_step dbg ep (Inc_tx_pending p) = rxr_ep_inc_tx_pending dbg ep p"
| "tx_pending_step dbg ep (Dec_tx_pending p failed) = rxr_ep_dec_tx_pending dbg ep p failed"

fun tx_pending_calls :: "bool \<Rightarrow> rxr_ep \<Rightarrow> tx_pending_call list \<Rightarrow> fault + rxr_ep" where
  "tx_pending_calls dbg ep [] = Inr ep"
| "tx_pending_calls dbg ep (c # cs) =
     (case tx_pending_step dbg ep c of
        Inl f \<Rightarrow> Inl f
      | Inr ep' \<Rightarrow> tx_pending_calls dbg ep' cs)"

fun call_peer :: "tx_pending_call \<Rightarrow> nat" where
  "call_peer (Inc_tx_pending p) = p"
| "call_peer (Dec_tx_pending p failed) = p"

definition tx_pending_sum :: "rxr_ep \<Rightarrow> size_t" where
  "tx_pending_sum ep = sum_list (map tx_pending (peer ep))"

definition tx_pending_total :: "rxr_ep \<Rightarrow> nat" where
  "tx_pending_total ep = sum_list (map (\<lambda>q. unat (tx_pending q)) (peer ep))"

fun paired :: "(nat \<Rightarrow> nat) \<Rightarrow> tx_pending_call list \<Rightarrow> bool" where
  "paired out [] = True"
| "paired out (Inc_tx_pending p # cs) = paired (out(p := Suc (out p))) cs"
| "paired out (Dec_tx_pending p failed # cs) =
     (0 < out p \<and> paired (out(p := out p - 1)) cs)"

section \<open>Event-queue error reporting (rxr.h)\<close>

text \<open>
  \<open>efa_eq_write_error\<close>. Of \<open>struct util_ep\<close> only the event queue pointer \<open>eq\<close> is
  read (\<open>None\<close> is the null pointer); of the error entry, zeroed by \<open>memset\<close>, the two
  fields that are then assigned. \<open>fi_eq_write\<close> belongs to the fabric library and is a
  parameter: from the queue, the entry and its size it yields its \<open>ssize_t\<close> result
  and the queue afterwards (the event \<open>FI_NOTIFY\<close> and the flag \<open>UTIL_FLAG_ERROR\<close> are
  fixed). \<open>sizeof(err_entry)\<close> is a parameter as well. The result is stored in the
  \<open>int ret\<close> and compared with the \<open>size_t\<close> size, so it is converted to 32 bits and
  sign-extended to 64. The process either returns or calls \<open>abort()\<close>; the log
  messages are not modelled.
\<close>

record fi_eq_err_entry =
  err :: c_int
  prov_errno :: c_int

record 'eq util_ep =
  ep_eq :: "'eq option"

datatype 'a outcome = Returned 'a | Aborted 'a

fun is_aborted :: "'a outcome \<Rightarrow> bool" where
  "is_aborted (Returned s) = False"
| "is_aborted (Aborted s) = True"

fun final_state :: "'a outcome \<Rightarrow> 'a" where
  "final_state (Returned s) = s"
| "final_state (Aborted s) = s"

definition efa_eq_write_error ::
  "('eq \<Rightarrow> fi_eq_err_entry \<Rightarrow> size_t \<Rightarrow> ssize_t \<times> 'eq) \<Rightarrow> size_t \<Rightarrow>
   'eq util_ep \<Rightarrow> ssize_t \<Rightarrow> ssize_t \<Rightarrow> 'eq util_ep outcome" where
  "efa_eq_write_error fi_eq_write sizeof_err_entry ep err' prov_errno' =
     (case ep_eq ep of
        None \<Rightarrow> Aborted ep
      | Some q \<Rightarrow>
          let err_entry = \<lparr>err = ucast err', prov_errno = ucast prov_errno'\<rparr>;
              (r, q') = fi_eq_write q err_entry sizeof_err_entry;
              ret = (ucast r :: c_int);
              ep' = ep\<lparr>ep_eq := Some q'\<rparr>
          in if (scast ret :: size_t) = sizeof_err_entry then Returned ep' else Aborted ep')"

section \<open>Memory registration (rxr_domain.c)\<close>

text \<open>
  \<open>rxr_mr_regv\<close> and \<open>rxr_mr_reg\<close> fill a local \<open>struct fi_mr_attr\<close> and hand it to
  \<open>rxr_mr_regattr\<close>. The local variable starts with indeterminate content, the
  parameter \<open>attr0\<close>; the assignments overwrite the fields they name. \<open>rxr_mr_regattr\<close>
  is a parameter, so that what it receives can be observed. The structure and the
  interface enumeration are declared in a header that is not among the sources:
  the fields are those the sources use (\<open>context\<close> is named \<open>mr_context\<close>), the
  interfaces those they name. Pointers are
  64-bit values; the array \<open>mr_iov\<close> points to is a list.
\<close>

datatype fi_hmem_iface = FI_HMEM_SYSTEM | FI_HMEM_CUDA

record iovec =
  iov_base :: uint64_t
  iov_len :: size_t

record fi_mr_attr =
  mr_iov :: "iovec list"
  iov_count :: size_t
  access :: uint64_t
  offset :: uint64_t
  requested_key :: uint64_t
  mr_context :: uint64_t
  iface :: fi_hmem_iface
  device :: uint64_t

definition rxr_mr_regv ::
  "(uint64_t \<Rightarrow> fi_mr_attr \<Rightarrow> uint64_t \<Rightarrow> 'r) \<Rightarrow> fi_mr_attr \<Rightarrow> uint64_t \<Rightarrow> iovec list \<Rightarrow>
   size_t \<Rightarrow> uint64_t \<Rightarrow> uint64_t \<Rightarrow> uint64_t \<Rightarrow> uint64_t \<Rightarrow> uint64_t \<Rightarrow> 'r" where
  "rxr_mr_regv rxr_mr_regattr attr0 domain_fid iov count access' offset' requested_key'
       flags context' =
     (let attr = attr0\<lparr>mr_iov := iov, iov_count := count, access := access',
                   offset := offset', requested_key := requested_key',
                   mr_context := context', iface := FI_HMEM_SYSTEM\<rparr>
      in rxr_mr_regattr domain_fid attr flags)"

definition rxr_mr_reg ::
  "(uint64_t \<Rightarrow> fi_mr_attr \<Rightarrow> uint64_t \<Rightarrow> 'r) \<Rightarrow> fi_mr_attr \<Rightarrow> uint64_t \<Rightarrow> uint64_t \<Rightarrow>
   size_t \<Rightarrow> uint64_t \<Rightarrow> uint64_t \<Rightarrow> uint64_t \<Rightarrow> uint64_t \<Rightarrow> uint64_t \<Rightarrow> 'r" where
  "rxr_mr_reg rxr_mr_regattr attr0 domain_fid buf len access' offset' requested_key'
       flags context' =
     (let iov = \<lparr>iov_base = buf, iov_len = len\<rparr>
      in rxr_mr_regv rxr_mr_regattr attr0 domain_fid [iov] 1 access' offset' requested_key'
           flags context')"

section \<open>Cancelling a posted receive (smr_ep.c)\<close>

text \<open>
  A posted receive, \<open>struct smr_rx_entry\<close>, with the fields the sources use, each
  under the prefix \<open>rx_\<close> (the list link \<open>entry\<close> is the position in a queue). Of the endpoint, the two posted-receive queues (their lists; the match
  function of a queue plays no part in cancelling), the free stack of receive
  entries, and the completion side \<open>rx_cq\<close>. The lock around the queue is not
  modelled: the code runs on one thread.
\<close>

record smr_rx_entry =
  rx_context :: uint64_t
  rx_flags :: uint64_t
  rx_addr :: fi_addr_t
  rx_tag :: uint64_t
  rx_ignore :: uint64_t

record 'cq smr_ep =
  trecv_queue :: "smr_rx_entry list"
  recv_queue :: "smr_rx_entry list"
  recv_fs :: "smr_rx_entry list"
  rx_cq :: 'cq

text \<open>
  \<open>smr_complete_rx\<close> is defined in a file that is not among the sources and is a
  parameter: from the completion side of the endpoint and the arguments of the call
  it yields its \<open>int\<close> result and the completion side afterwards. The arguments of a
  call, after the endpoint, are the record \<open>smr_rx_comp\<close>. The operation code
  \<open>ofi_op_msg\<close> and the error code \<open>FI_ECANCELED\<close> come from headers that are not
  among the sources and are parameters too.
\<close>

record smr_rx_comp =
  comp_context :: uint64_t
  comp_op :: uint32_t
  comp_flags :: uint64_t
  comp_len :: size_t
  comp_buf :: uint64_t
  comp_addr :: fi_addr_t
  comp_tag :: uint64_t
  comp_data :: uint64_t
  comp_err :: uint64_t

definition smr_match_recv_ctx :: "smr_rx_entry \<Rightarrow> uint64_t \<Rightarrow> c_int" where
  "smr_match_recv_ctx item args = c_truth (rx_context item = args)"

text \<open>
  Modelled from the spec: \<open>dlist_remove_first_match\<close> comes from a header that is not
  among the sources. It walks the list from the head, unlinks the first item for
  which the match function returns non-zero and returns it, or returns nothing and
  leaves the list alone.
\<close>

fun dlist_remove_first_match ::
  "('a \<Rightarrow> 'b \<Rightarrow> c_int) \<Rightarrow> 'b \<Rightarrow> 'a list \<Rightarrow> 'a option \<times> 'a list" where
  "dlist_remove_first_match match arg [] = (None, [])"
| "dlist_remove_first_match match arg (x # xs) =
     (if match x arg \<noteq> 0 then (Some x, xs)
      else (case dlist_remove_first_match match arg xs of (r, ys) \<Rightarrow> (r, x # ys)))"

definition smr_ep_cancel_recv ::
  "uint64_t \<Rightarrow> uint32_t \<Rightarrow> ('cq \<Rightarrow> smr_rx_comp \<Rightarrow> c_int \<times> 'cq) \<Rightarrow>
   'cq smr_ep \<Rightarrow> smr_rx_entry list \<Rightarrow> uint64_t \<Rightarrow> c_int \<times> 'cq smr_ep \<times> smr_rx_entry list" where
  "smr_ep_cancel_recv FI_ECANCELED ofi_op_msg smr_complete_rx ep queue ctx =
     (case dlist_remove_first_match smr_match_recv_ctx ctx queue of
        (None, queue') \<Rightarrow> (0, ep, queue')
      | (Some recv_entry, queue') \<Rightarrow>
          let (ret, cq') = smr_complete_rx (rx_cq ep)
                 \<lparr>comp_context = rx_context recv_entry, comp_op = ofi_op_msg,
                  comp_flags = rx_flags recv_entry, comp_len = 0, comp_buf = 0,
                  comp_addr = rx_addr recv_entry, comp_tag = rx_tag recv_entry, comp_data = 0,
                  comp_err = FI_ECANCELED\<rparr>;
              ep' = ep\<lparr>rx_cq := cq', recv_fs := freestack_push (recv_fs ep) recv_entry\<rparr>;
              ret' = (if ret \<noteq> 0 then ret else 1)
          in (ret', ep', queue'))"

definition smr_ep_cancel ::
  "uint64_t \<Rightarrow> uint32_t \<Rightarrow> ('cq \<Rightarrow> smr_rx_comp \<Rightarrow> c_int \<times> 'cq) \<Rightarrow>
   'cq smr_ep \<Rightarrow> uint64_t \<Rightarrow> ssize_t \<times> 'cq smr_ep" where
  "smr_ep_cancel FI_ECANCELED ofi_op_msg smr_complete_rx ep ctx =
     (case smr_ep_cancel_recv FI_ECANCELED ofi_op_msg smr_complete_rx ep (trecv_queue ep) ctx of
        (ret, ep1, tq) \<Rightarrow>
          let ep1' = ep1\<lparr>trecv_queue := tq\<rparr> in
          if ret \<noteq> 0 then (if sint ret < 0 then scast ret else 0, ep1')
          else
            (case smr_ep_cancel_recv FI_ECANCELED ofi_op_msg smr_complete_rx ep1'
                    (recv_queue ep1') ctx of
               (ret2, ep2, rq) \<Rightarrow>
                 (if sint ret2 < 0 then scast ret2 else 0, ep2\<lparr>recv_queue := rq\<rparr>)))"

section \<open>Releasing operation-tracking records (rxr.h)\<close>

text \<open>
  \<open>rxr_poison_mem_region\<close> treats a record as an array of \<open>uint32_t\<close>, so the storage of
  a tx or rx entry is that array, \<open>tx_mem\<close> and \<open>rx_mem\<close>. Where the compiler puts
  the field \<open>state\<close> (a 4-byte enumeration) and how large the record is depends on
  the platform: \<open>state_index\<close> is the index of that field in the array and
  \<open>sizeof_entry\<close> the size of the record in bytes. The packets hanging off
  \<open>queued_pkts\<close> are a list beside the storage, and \<open>tx_ptr\<close>, \<open>rx_ptr\<close> stand for the
  address of the record, under which a build with \<open>ENABLE_DEBUG\<close> links it into the
  endpoint's list of entries. The sentinel \<open>rxr_poison_value\<close> is defined in a file
  that is not among the sources and is a parameter; \<open>ENABLE_DEBUG\<close> and
  \<open>ENABLE_EFA_POISONING\<close> are the two build switches.
\<close>

record rxr_tx_entry =
  tx_ptr :: nat
  tx_mem :: "uint32_t list"
  tx_queued_pkts :: "nat list"

record rxr_rx_entry =
  rx_ptr :: nat
  rx_mem :: "uint32_t list"
  rx_queued_pkts :: "nat list"

record entry_layout =
  sizeof_entry :: nat
  state_index :: nat

definition RXR_TX_FREE :: uint32_t where "RXR_TX_FREE = 0"
definition RXR_RX_FREE :: uint32_t where "RXR_RX_FREE = 0"

function rxr_poison_loop :: "uint32_t \<Rightarrow> nat \<Rightarrow> nat \<Rightarrow> uint32_t list \<Rightarrow> fault + uint32_t list" where
  "rxr_poison_loop v i n ptr =
     (if i < n then
        (if i < length ptr then rxr_poison_loop v (Suc i) n (ptr[i := v])
         else Inl BadPointer)
      else Inr ptr)"
  by pat_completeness auto
termination
  by (relation "measure (\<lambda>(v, i, n, ptr). n - i)") auto

definition rxr_poison_mem_region :: "uint32_t \<Rightarrow> uint32_t list \<Rightarrow> nat \<Rightarrow> fault + uint32_t list" where
  "rxr_poison_mem_region rxr_poison_value ptr size' =
     rxr_poison_loop rxr_poison_value 0 (size' div 4) ptr"

text \<open>
  Modelled from the spec: \<open>dlist_remove\<close> comes from a header that is not among the
  sources. It unlinks an item from the list it is on.
\<close>

definition dlist_remove :: "'a \<Rightarrow> 'a list \<Rightarrow> 'a list" where
  "dlist_remove item xs = remove1 item xs"

text \<open>
  Modelled from the spec: \<open>dlist_empty\<close> comes from the same missing header. It tells
  whether a list has no item.
\<close>

definition dlist_empty :: "'a list \<Rightarrow> bool" where
  "dlist_empty xs \<longleftrightarrow> xs = []"

text \<open>
  Modelled from the spec: \<open>ofi_buf_free\<close> comes from a header that is not among the
  sources. By the spec a released slot goes back to the pool it was taken from and
  pools reuse slots: a pool is the stack of its free slots, and the released slot is
  put on top.
\<close>

definition ofi_buf_free :: "'a \<Rightarrow> 'a list \<Rightarrow> 'a list" where
  "ofi_buf_free buf pool = buf # pool"

definition rxr_release_tx_entry ::
  "bool \<Rightarrow> bool \<Rightarrow> uint32_t \<Rightarrow> entry_layout \<Rightarrow> rxr_ep \<Rightarrow> rxr_tx_entry list \<Rightarrow> rxr_tx_entry \<Rightarrow>
   fault + rxr_ep \<times> rxr_tx_entry list" where
  "rxr_release_tx_entry ENABLE_DEBUG ENABLE_EFA_POISONING rxr_poison_value layout ep pool
       tx_entry =
     (let ep' = (if ENABLE_DEBUG
                 then ep\<lparr>tx_entry_list := dlist_remove (tx_ptr tx_entry) (tx_entry_list ep)\<rparr>
                 else ep)
      in if \<not> dlist_empty (tx_queued_pkts tx_entry) then Inl AssertFailed
         else
           (case (if ENABLE_EFA_POISONING
                  then rxr_poison_mem_region rxr_poison_value (tx_mem tx_entry)
                         (sizeof_entry layout)
                  else Inr (tx_mem tx_entry)) of
              Inl f \<Rightarrow> Inl f
            | Inr m \<Rightarrow>
                if length m \<le> state_index layout then Inl BadPointer
                else Inr (ep', ofi_buf_free
                            (tx_entry\<lparr>tx_mem := m[state_index layout := RXR_TX_FREE]\<rparr>) pool)))"

definition rxr_release_rx_entry ::
  "bool \<Rightarrow> bool \<Rightarrow> uint32_t \<Rightarrow> entry_layout \<Rightarrow> rxr_ep \<Rightarrow> rxr_rx_entry list \<Rightarrow> rxr_rx_entry \<Rightarrow>
   fault + rxr_ep \<times> rxr_rx_entry list" where
  "rxr_release_rx_entry ENABLE_DEBUG ENABLE_EFA_POISONING rxr_poison_value layout ep pool
       rx_entry =
     (let ep' = (if ENABLE_DEBUG
                 then ep\<lparr>rx_entry_list := dlist_remove (rx_ptr rx_entry) (rx_entry_list ep)\<rparr>
                 else ep)
      in if \<not> dlist_empty (rx_queued_pkts rx_entry) then Inl AssertFailed
         else
           (case (if ENABLE_EFA_POISONING
                  then rxr_poison_mem_region rxr_poison_value (rx_mem rx_entry)
                         (sizeof_entry layout)
                  else Inr (rx_mem rx_entry)) of
              Inl f \<Rightarrow> Inl f
            | Inr m \<Rightarrow>
                if length m \<le> state_index layout then Inl BadPointer
                else Inr (ep', ofi_buf_free
                            (rx_entry\<lparr>rx_mem := m[state_index layout := RXR_RX_FREE]\<rparr>) pool)))"

section \<open>Example states\<close>

text \<open>
  Concrete states on which the theorems are instantiated: the default configuration
  (the \<open>RXR_DEF\<close> constants above; reordering enabled), a zeroed peer, and an
  endpoint with two such peers, one free receive window, and an application that
  asks for send-after-send ordering (bit 8) of a transport that does not give it.
\<close>

definition example_env :: rxr_env where
  "example_env = \<lparr>rx_window_size = RXR_DEF_MAX_RX_WINDOW, tx_max_credits = RXR_DEF_MAX_TX_CREDITS,
     enable_sas_ordering = 1, recvwin_size = RXR_RECVWIN_SIZE,
     max_timeout = RXR_DEF_RNR_MAX_TIMEOUT\<rparr>"

definition example_peer :: rxr_peer where
  "example_peer = \<lparr>tx_init = False, rx_init = False, is_local = False, shm_fiaddr = 0,
     robuf = None, next_msg_id = 0, state = RXR_PEER_FREE, rnr_state = 0, tx_pending = 0,
     tx_credits = 0, rx_credits = 0, rnr_ts = 0, rnr_queued_pkt_cnt = 0,
     timeout_interval = 0, rnr_timeout_exp = 0\<rparr>"

definition example_ep :: rxr_ep where
  "example_ep = \<lparr>peer = [example_peer, example_peer],
     robuf_fs = [\<lparr>exp_msg_id = 0, win_size = 0, pending = []\<rparr>],
     msg_order = 256, core_msg_order = 0, peer_list = [], ep_tx_pending = 0,
     tx_entry_list = [], rx_entry_list = [], sends = 0, failed_send_comps = 0\<rparr>"

text \<open>
  Stand-ins for the parameters that are functions. For \<open>smr_complete_rx\<close>: a
  completion queue (the list of the completions written) with room, where the
  completion is appended and 0 returned, and one that fails with a negative error
  code and writes nothing. For \<open>fi_eq_write\<close>: an event queue that takes the entry and
  returns the number of bytes written, and one that returns a negative error code.
  For \<open>rxr_mr_regattr\<close>: a function that reports the interface it is handed.
\<close>

definition cq_write :: "smr_rx_comp list \<Rightarrow> smr_rx_comp \<Rightarrow> c_int \<times> smr_rx_comp list" where
  "cq_write cq c = (0, cq @ [c])"

definition cq_write_fails :: "smr_rx_comp list \<Rightarrow> smr_rx_comp \<Rightarrow> c_int \<times> smr_rx_comp list" where
  "cq_write_fails cq c = (- 12, cq)"

definition eq_write ::
  "fi_eq_err_entry list \<Rightarrow> fi_eq_err_entry \<Rightarrow> size_t \<Rightarrow> ssize_t \<times> fi_eq_err_entry list" where
  "eq_write q entry len = (len, q @ [entry])"

definition eq_write_fails ::
  "fi_eq_err_entry list \<Rightarrow> fi_eq_err_entry \<Rightarrow> size_t \<Rightarrow> ssize_t \<times> fi_eq_err_entry list" where
  "eq_write_fails q entry len = (- 11, q)"

definition reports_iface :: "uint64_t \<Rightarrow> fi_mr_attr \<Rightarrow> uint64_t \<Rightarrow> fi_hmem_iface" where
  "reports_iface domain_fid attr flags = iface attr"

text \<open>
  A shared-memory endpoint with one tagged receive posted under context 7 and two
  untagged ones under contexts 9 and 7; stack storage that happens to hold the CUDA
  interface; a tx and an rx entry of four words with \<open>state\<close> in the third.
\<close>

definition example_smr_ep :: "smr_rx_comp list smr_ep" where
  "example_smr_ep =
     \<lparr>trecv_queue = [\<lparr>rx_context = 7, rx_flags = 0, rx_addr = 1, rx_tag = 5, rx_ignore = 0\<rparr>],
      recv_queue = [\<lparr>rx_context = 9, rx_flags = 0, rx_addr = 2, rx_tag = 0, rx_ignore = 0\<rparr>,
                    \<lparr>rx_context = 7, rx_flags = 0, rx_addr = 3, rx_tag = 0, rx_ignore = 0\<rparr>],
      recv_fs = [], rx_cq = []\<rparr>"

definition example_attr :: fi_mr_attr where
  "example_attr = \<lparr>mr_iov = [], iov_count = 0, access = 0, offset = 0, requested_key = 0,
     mr_context = 0, iface = FI_HMEM_CUDA, device = 3\<rparr>"

definition example_tx_entry :: rxr_tx_entry where
  "example_tx_entry = \<lparr>tx_ptr = 1, tx_mem = [1, 2, 3, 4], tx_queued_pkts = []\<rparr>"

definition example_rx_entry :: rxr_rx_entry where
  "example_rx_entry = \<lparr>rx_ptr = 2, rx_mem = [5, 6, 7, 8], rx_queued_pkts = []\<rparr>"

definition example_layout :: entry_layout where
  "example_layout = \<lparr>sizeof_entry = 16, state_index = 2\<rparr>"

section \<open>Theorems\<close>

lemma c_truth_nonzero: "c_truth b \<noteq> 0 \<longleftrightarrow> b"
  by (simp add: c_truth_def)

text \<open>
  Claim C1. \<open>rxr_need_sas_ordering\<close> returns true exactly when the application
  requested send-after-send ordering (\<open>msg_order\<close> has \<open>FI_ORDER_SAS\<close>), the lower
  transport does not provide it (\<open>core_msg_order\<close> does not have \<open>FI_ORDER_SAS\<close>),
  and the configuration flag \<open>enable_sas_ordering\<close>, which the code conjoins and the
  option table of the specification lists, is set.
\<close>

theorem need_sas_ordering_iff:
  "rxr_need_sas_ordering FI_ORDER_SAS rxr_env ep \<noteq> 0 \<longleftrightarrow>
     (msg_order ep AND FI_ORDER_SAS) \<noteq> 0 \<and> (core_msg_order ep AND FI_ORDER_SAS) = 0 \<and>
     enable_sas_ordering rxr_env \<noteq> 0"
  by (simp add: rxr_need_sas_ordering_def c_truth_nonzero)

lemma uint_add_word_of_int:
  fixes a :: "64 word"
  assumes "0 \<le> uint a + m" "uint a + m < 2 ^ 64"
  shows "uint (a + word_of_int m) = uint a + m"
  using assms by (simp add: uint_word_ariths uint_word_of_int mod_add_right_eq)

text \<open>
  Claim C2, as stated (exact integer arithmetic for every peer and timestamp), fails:
  the sum is a \<open>uint64_t\<close> and wraps. With \<open>rnr_ts = 2 ^ 64 - 1\<close> and a backoff of
  40 microseconds the sum is 39, so the timestamp 50 counts as expired, although
  50 is below \<open>rnr_ts + 40\<close>.
\<close>

theorem peer_timeout_expired_counterexample:
  "\<not> (rxr_peer_timeout_expired example_env
         (example_peer\<lparr>rnr_ts := 18446744073709551615, timeout_interval := 40, rnr_timeout_exp := 0\<rparr>) 50 =
       Some (uint (18446744073709551615 :: uint64_t) + min (sint (max_timeout example_env)) (40 * 2 ^ 0)
               \<le> uint (50 :: uint64_t)))"
  by (simp add: rxr_peer_timeout_expired_def example_env_def c_int_range_def MIN'_def
      RXR_DEF_RNR_MAX_TIMEOUT_def)

text \<open>
  Claim C2, amended. Where the C arithmetic is defined and nothing wraps (the shift
  count is between 0 and 30, the product is an \<open>int\<close>, and \<open>rnr_ts\<close> plus the backoff
  is a \<open>uint64_t\<close>), \<open>rxr_peer_timeout_expired\<close> returns true exactly when
  \<open>ts \<ge> rnr_ts + min(max_timeout, timeout_interval * 2 ^ rnr_timeout_exp)\<close> in exact
  integer arithmetic; the default \<open>max_timeout\<close> is 1,000,000 microseconds.
\<close>

theorem peer_timeout_expired_exact:
  assumes "0 \<le> sint (rnr_timeout_exp p)" and "sint (rnr_timeout_exp p) < 31"
    and "c_int_range (sint (timeout_interval p) * 2 ^ nat (sint (rnr_timeout_exp p)))"
    and "0 \<le> uint (rnr_ts p) + min (sint (max_timeout rxr_env))
                 (sint (timeout_interval p) * 2 ^ nat (sint (rnr_timeout_exp p)))"
    and "uint (rnr_ts p) + min (sint (max_timeout rxr_env))
                 (sint (timeout_interval p) * 2 ^ nat (sint (rnr_timeout_exp p))) < 2 ^ 64"
  shows "rxr_peer_timeout_expired rxr_env p ts =
           Some (uint (rnr_ts p) + min (sint (max_timeout rxr_env))
                   (sint (timeout_interval p) * 2 ^ nat (sint (rnr_timeout_exp p))) \<le> uint ts) \<and>
         sint RXR_DEF_RNR_MAX_TIMEOUT = 1000000"
proof -
  let ?prod = "sint (timeout_interval p) * 2 ^ nat (sint (rnr_timeout_exp p))"
  let ?b = "min (sint (max_timeout rxr_env)) ?prod"
  have m: "MIN' (sint (max_timeout rxr_env)) ?prod = ?b"
    by (simp add: MIN'_def min_def)
  have "uint (rnr_ts p + word_of_int ?b) = uint (rnr_ts p) + ?b"
    using assms(4,5) by (rule uint_add_word_of_int)
  then show ?thesis
    using assms(1,2,3)
    by (simp add: rxr_peer_timeout_expired_def Let_def m word_le_def RXR_DEF_RNR_MAX_TIMEOUT_def)
qed

text \<open>
  Witness for C2: a peer that hit RNR at time 1000 with an initial interval of 100
  microseconds and exponent 1 is in backoff for 200 microseconds: expired at 1200,
  not yet at 1199.
\<close>

theorem peer_timeout_expired_exact_witness:
  "rxr_peer_timeout_expired example_env
     (example_peer\<lparr>rnr_ts := 1000, timeout_interval := 100, rnr_timeout_exp := 1\<rparr>) 1200 = Some True \<and>
   rxr_peer_timeout_expired example_env
     (example_peer\<lparr>rnr_ts := 1000, timeout_interval := 100, rnr_timeout_exp := 1\<rparr>) 1199 = Some False"
  using peer_timeout_expired_exact [of "example_peer\<lparr>rnr_ts := 1000, timeout_interval := 100, rnr_timeout_exp := 1\<rparr>" example_env 1200]
    peer_timeout_expired_exact [of "example_peer\<lparr>rnr_ts := 1000, timeout_interval := 100, rnr_timeout_exp := 1\<rparr>" example_env 1199]
  by (simp add: example_env_def c_int_range_def RXR_DEF_RNR_MAX_TIMEOUT_def)

lemma ucast_c_int_uint16:
  fixes w :: c_int
  assumes "0 \<le> sint w" "sint w < 65536"
  shows "uint (ucast w :: uint16_t) = sint w"
proof -
  have u: "uint w = sint w"
    using assms by (simp add: uint_sint take_bit_int_eq_self)
  have "uint (ucast w :: uint16_t) = take_bit 16 (uint w)"
    by (simp add: unsigned_ucast_eq)
  also have "\<dots> = uint w"
    using assms u by (simp add: take_bit_int_eq_self)
  finally show ?thesis using u by simp
qed

text \<open>
  Claim C3. For a peer whose \<open>rx_init\<close> is false (the asserted precondition; the
  pointer is valid and the free stack of windows is not empty), \<open>rxr_ep_peer_init\<close>
  gives the peer a receive window of \<open>recvwin_size\<close> empty slots, sets \<open>rx_credits\<close>
  to \<open>rx_window_size\<close> and sets \<open>rx_init\<close>; \<open>tx_credits\<close> becomes \<open>tx_max_credits\<close>
  only when \<open>tx_init\<close> was false, and is left as it was otherwise; \<open>tx_init\<close> holds
  afterwards. The credits are \<open>uint16_t\<close> fields assigned from \<open>int\<close> settings: the
  stored value is the setting converted to 16 bits, which is the setting itself
  when it lies between 0 and 65535.
\<close>

theorem peer_init_rx_state:
  assumes "p < length (peer ep)" and "\<not> rx_init (peer ep ! p)" and "robuf_fs ep \<noteq> []"
  shows "\<exists>ep'. rxr_ep_peer_init rxr_env ep p = Inr ep' \<and>
     length (peer ep') = length (peer ep) \<and>
     (\<exists>r. robuf (peer ep' ! p) = Some r \<and> win_size r = recvwin_size rxr_env \<and>
          pending r = replicate (unat (recvwin_size rxr_env)) None) \<and>
     rx_credits (peer ep' ! p) = ucast (rx_window_size rxr_env) \<and>
     (0 \<le> sint (rx_window_size rxr_env) \<and> sint (rx_window_size rxr_env) < 65536 \<longrightarrow>
        uint (rx_credits (peer ep' ! p)) = sint (rx_window_size rxr_env)) \<and>
     rx_init (peer ep' ! p) \<and> tx_init (peer ep' ! p) \<and>
     tx_credits (peer ep' ! p) =
       (if tx_init (peer ep ! p) then tx_credits (peer ep ! p)
        else ucast (tx_max_credits rxr_env)) \<and>
     (\<not> tx_init (peer ep ! p) \<and>
      0 \<le> sint (tx_max_credits rxr_env) \<and> sint (tx_max_credits rxr_env) < 65536 \<longrightarrow>
        uint (tx_credits (peer ep' ! p)) = sint (tx_max_credits rxr_env))"
proof -
  obtain r fs where fs: "robuf_fs ep = r # fs"
    using assms(3) by (cases "robuf_fs ep") auto
  show ?thesis
    using assms(1,2)
    by (simp add: rxr_ep_peer_init_def freestack_pop_def fs Let_def ofi_recvwin_buf_alloc_def
        ucast_c_int_uint16)
qed

text \<open>
  Witness for C3: the first RTS from peer 0 of the example endpoint, once with the
  transmit side untouched and once after a first send has left 7 transmit credits.
\<close>

theorem peer_init_rx_state_witness:
  "(\<exists>ep'. rxr_ep_peer_init example_env example_ep 0 = Inr ep' \<and>
      rx_credits (peer ep' ! 0) = 128 \<and> rx_init (peer ep' ! 0) \<and>
      tx_credits (peer ep' ! 0) = 64) \<and>
   (\<exists>ep'. rxr_ep_peer_init example_env
        (example_ep\<lparr>peer := [example_peer\<lparr>tx_init := True, tx_credits := 7\<rparr>]\<rparr>) 0 = Inr ep' \<and>
      rx_credits (peer ep' ! 0) = 128 \<and> rx_init (peer ep' ! 0) \<and>
      tx_credits (peer ep' ! 0) = 7)"
proof -
  have a: "0 < length (peer example_ep)" "\<not> rx_init (peer example_ep ! 0)"
    "robuf_fs example_ep \<noteq> []"
    by (simp_all add: example_ep_def example_peer_def)
  let ?ep = "example_ep\<lparr>peer := [example_peer\<lparr>tx_init := True, tx_credits := 7\<rparr>]\<rparr>"
  have b: "0 < length (peer ?ep)" "\<not> rx_init (peer ?ep ! 0)" "robuf_fs ?ep \<noteq> []"
    by (simp_all add: example_ep_def example_peer_def)
  from peer_init_rx_state [OF a, of example_env] obtain ep1 where
    "rxr_ep_peer_init example_env example_ep 0 = Inr ep1"
    "rx_credits (peer ep1 ! 0) = ucast (rx_window_size example_env)"
    "rx_init (peer ep1 ! 0)"
    "tx_credits (peer ep1 ! 0) =
       (if tx_init (peer example_ep ! 0) then tx_credits (peer example_ep ! 0)
        else ucast (tx_max_credits example_env))"
    by blast
  then have 1: "\<exists>ep'. rxr_ep_peer_init example_env example_ep 0 = Inr ep' \<and>
      rx_credits (peer ep' ! 0) = 128 \<and> rx_init (peer ep' ! 0) \<and>
      tx_credits (peer ep' ! 0) = 64"
    by (simp add: example_env_def example_ep_def example_peer_def
        RXR_DEF_MAX_RX_WINDOW_def RXR_DEF_MAX_TX_CREDITS_def)
  from peer_init_rx_state [OF b, of example_env] obtain ep2 where
    "rxr_ep_peer_init example_env ?ep 0 = Inr ep2"
    "rx_credits (peer ep2 ! 0) = ucast (rx_window_size example_env)"
    "rx_init (peer ep2 ! 0)"
    "tx_credits (peer ep2 ! 0) =
       (if tx_init (peer ?ep ! 0) then tx_credits (peer ?ep ! 0)
        else ucast (tx_max_credits example_env))"
    by blast
  then have 2: "\<exists>ep'. rxr_ep_peer_init example_env ?ep 0 = Inr ep' \<and>
      rx_credits (peer ep' ! 0) = 128 \<and> rx_init (peer ep' ! 0) \<and>
      tx_credits (peer ep' ! 0) = 7"
    by (simp add: example_env_def example_ep_def example_peer_def
        RXR_DEF_MAX_RX_WINDOW_def RXR_DEF_MAX_TX_CREDITS_def)
  from 1 2 show ?thesis by blast
qed

text \<open>
  Claim C9. The protocol-level limits are the constants of the specification: the
  maximum source address length is 32 bytes, the scatter-gather limit is 4, the
  protocol version is 4 with major version 2 and minor version 0, and the MTU bound
  is \<open>2 ^ 15\<close>.
\<close>

theorem protocol_constants:
  "RXR_MAX_NAME_LENGTH = 32 \<and> RXR_IOV_LIMIT = 4 \<and> RXR_PROTOCOL_VERSION = 4 \<and>
   RXR_MAJOR_VERSION = 2 \<and> RXR_MINOR_VERSION = 0 \<and>
   RXR_MTU_MAX_LIMIT = 2 ^ 15 \<and> unat RXR_MTU_MAX_LIMIT = 32768"
  by (simp add: RXR_MAX_NAME_LENGTH_def RXR_IOV_LIMIT_def RXR_PROTOCOL_VERSION_def
      RXR_MAJOR_VERSION_def RXR_MINOR_VERSION_def RXR_MTU_MAX_LIMIT_def BIT_ULL_def)

text \<open>
  Claim C4. Receive matching: \<open>rxr_match_tag\<close> returns true (a non-zero \<open>int\<close>)
  exactly when the two tags agree on every bit outside the ignore mask, that is
  \<open>(tag | ignore) == (match_tag | ignore)\<close>; \<open>rxr_match_addr\<close> returns true exactly
  when the posted address is the wildcard \<open>FI_ADDR_UNSPEC\<close> or equals the address to
  match.
\<close>

theorem rxr_match_predicates:
  "(rxr_match_tag tag ignore match_tag \<noteq> 0 \<longleftrightarrow> (tag OR ignore) = (match_tag OR ignore)) \<and>
   (rxr_match_addr FI_ADDR_UNSPEC addr match_addr \<noteq> 0 \<longleftrightarrow>
      (addr = FI_ADDR_UNSPEC \<or> addr = match_addr))"
  by (simp add: rxr_match_tag_def rxr_match_addr_def c_truth_nonzero)

lemma remove_first_match_found:
  assumes "\<forall>x \<in> set xs. rx_context x \<noteq> ctx" "rx_context e = ctx"
  shows "dlist_remove_first_match smr_match_recv_ctx ctx (xs @ e # ys) = (Some e, xs @ ys)"
  using assms by (induction xs) (simp_all add: smr_match_recv_ctx_def c_truth_def)

lemma remove_first_match_none:
  assumes "\<forall>x \<in> set xs. rx_context x \<noteq> ctx"
  shows "dlist_remove_first_match smr_match_recv_ctx ctx xs = (None, xs)"
  using assms by (induction xs) (simp_all add: smr_match_recv_ctx_def c_truth_def)

lemma cancel_recv_found:
  assumes "\<forall>x \<in> set xs. rx_context x \<noteq> ctx" "rx_context e = ctx"
  shows "smr_ep_cancel_recv E opm C ep (xs @ e # ys) ctx =
    (let r = C (rx_cq ep) \<lparr>comp_context = rx_context e, comp_op = opm,
                  comp_flags = rx_flags e, comp_len = 0, comp_buf = 0,
                  comp_addr = rx_addr e, comp_tag = rx_tag e, comp_data = 0,
                  comp_err = E\<rparr>
     in (if fst r \<noteq> 0 then fst r else 1,
         ep\<lparr>rx_cq := snd r, recv_fs := e # recv_fs ep\<rparr>, xs @ ys))"
  using assms
  by (simp add: smr_ep_cancel_recv_def remove_first_match_found Let_def freestack_push_def
      split: prod.splits)

lemma cancel_recv_none:
  assumes "\<forall>x \<in> set xs. rx_context x \<noteq> ctx"
  shows "smr_ep_cancel_recv E opm C ep xs ctx = (0, ep, xs)"
  using assms by (simp add: smr_ep_cancel_recv_def remove_first_match_none)

text \<open>
  Claim C5, as stated, fails where the completion cannot be written: the posted
  receive under context 7 is found and removed, but \<open>smr_complete_rx\<close> reports a
  negative error and \<open>smr_ep_cancel\<close> returns that error, not 0.
\<close>

theorem smr_ep_cancel_counterexample:
  "\<not> (fst (smr_ep_cancel 125 0 cq_write_fails example_smr_ep 7) = 0)"
  by (simp add: smr_ep_cancel_def smr_ep_cancel_recv_def smr_match_recv_ctx_def c_truth_def
      cq_write_fails_def example_smr_ep_def freestack_push_def Let_def)

text \<open>
  Claim C5, amended. If a receive posted under the context is in the tagged queue,
  \<open>smr_ep_cancel\<close> removes the first such entry from the tagged queue; otherwise, if
  one is in the untagged queue, the first such entry from the untagged queue. It
  calls \<open>smr_complete_rx\<close> for that entry with the error \<open>FI_ECANCELED\<close>, returns the
  entry to the free stack, and returns 0, unless \<open>smr_complete_rx\<close> returned a
  negative error code, which it then returns. If no entry matches it returns 0,
  changes no queue and writes no completion.
\<close>

theorem smr_ep_cancel_spec:
  "(trecv_queue ep = xs @ e # ys \<and> (\<forall>x \<in> set xs. rx_context x \<noteq> ctx) \<and> rx_context e = ctx \<longrightarrow>
      smr_ep_cancel E opm C ep ctx =
        (let r = C (rx_cq ep) \<lparr>comp_context = rx_context e, comp_op = opm,
                  comp_flags = rx_flags e, comp_len = 0, comp_buf = 0,
                  comp_addr = rx_addr e, comp_tag = rx_tag e, comp_data = 0,
                  comp_err = E\<rparr>
         in (if sint (fst r) < 0 then scast (fst r) else 0,
             ep\<lparr>trecv_queue := xs @ ys, recv_fs := e # recv_fs ep, rx_cq := snd r\<rparr>))) \<and>
   ((\<forall>x \<in> set (trecv_queue ep). rx_context x \<noteq> ctx) \<and>
    recv_queue ep = xs @ e # ys \<and> (\<forall>x \<in> set xs. rx_context x \<noteq> ctx) \<and> rx_context e = ctx \<longrightarrow>
      smr_ep_cancel E opm C ep ctx =
        (let r = C (rx_cq ep) \<lparr>comp_context = rx_context e, comp_op = opm,
                  comp_flags = rx_flags e, comp_len = 0, comp_buf = 0,
                  comp_addr = rx_addr e, comp_tag = rx_tag e, comp_data = 0,
                  comp_err = E\<rparr>
         in (if sint (fst r) < 0 then scast (fst r) else 0,
             ep\<lparr>recv_queue := xs @ ys, recv_fs := e # recv_fs ep, rx_cq := snd r\<rparr>))) \<and>
   ((\<forall>x \<in> set (trecv_queue ep). rx_context x \<noteq> ctx) \<and>
    (\<forall>x \<in> set (recv_queue ep). rx_context x \<noteq> ctx) \<longrightarrow>
      smr_ep_cancel E opm C ep ctx = (0, ep))"
proof (intro conjI impI)
  assume a: "trecv_queue ep = xs @ e # ys \<and> (\<forall>x \<in> set xs. rx_context x \<noteq> ctx) \<and> rx_context e = ctx"
  then show "smr_ep_cancel E opm C ep ctx =
        (let r = C (rx_cq ep) \<lparr>comp_context = rx_context e, comp_op = opm,
                  comp_flags = rx_flags e, comp_len = 0, comp_buf = 0,
                  comp_addr = rx_addr e, comp_tag = rx_tag e, comp_data = 0,
                  comp_err = E\<rparr>
         in (if sint (fst r) < 0 then scast (fst r) else 0,
             ep\<lparr>trecv_queue := xs @ ys, recv_fs := e # recv_fs ep, rx_cq := snd r\<rparr>))"
    by (simp add: smr_ep_cancel_def cancel_recv_found Let_def)
next
  assume a: "(\<forall>x \<in> set (trecv_queue ep). rx_context x \<noteq> ctx) \<and>
    recv_queue ep = xs @ e # ys \<and> (\<forall>x \<in> set xs. rx_context x \<noteq> ctx) \<and> rx_context e = ctx"
  then have t: "smr_ep_cancel_recv E opm C ep (trecv_queue ep) ctx = (0, ep, trecv_queue ep)"
    by (simp add: cancel_recv_none)
  from a show "smr_ep_cancel E opm C ep ctx =
        (let r = C (rx_cq ep) \<lparr>comp_context = rx_context e, comp_op = opm,
                  comp_flags = rx_flags e, comp_len = 0, comp_buf = 0,
                  comp_addr = rx_addr e, comp_tag = rx_tag e, comp_data = 0,
                  comp_err = E\<rparr>
         in (if sint (fst r) < 0 then scast (fst r) else 0,
             ep\<lparr>recv_queue := xs @ ys, recv_fs := e # recv_fs ep, rx_cq := snd r\<rparr>))"
    by (simp add: smr_ep_cancel_def t cancel_recv_found Let_def)
next
  assume a: "(\<forall>x \<in> set (trecv_queue ep). rx_context x \<noteq> ctx) \<and>
    (\<forall>x \<in> set (recv_queue ep). rx_context x \<noteq> ctx)"
  then show "smr_ep_cancel E opm C ep ctx = (0, ep)"
    by (simp add: smr_ep_cancel_def cancel_recv_none)
qed

text \<open>
  Witness for C5: on the example endpoint, with a completion queue that has room,
  cancelling context 7 takes the tagged entry and leaves the untagged one with the
  same context; cancelling context 9 takes the first untagged entry; cancelling
  context 4 does nothing. Each returns 0.
\<close>

theorem smr_ep_cancel_spec_witness:
  "smr_ep_cancel 125 0 cq_write example_smr_ep 7 =
     (0, example_smr_ep\<lparr>trecv_queue := [],
           recv_fs := [\<lparr>rx_context = 7, rx_flags = 0, rx_addr = 1, rx_tag = 5, rx_ignore = 0\<rparr>],
           rx_cq := [\<lparr>comp_context = 7, comp_op = 0, comp_flags = 0, comp_len = 0, comp_buf = 0,
                      comp_addr = 1, comp_tag = 5, comp_data = 0, comp_err = 125\<rparr>]\<rparr>) \<and>
   smr_ep_cancel 125 0 cq_write example_smr_ep 9 =
     (0, example_smr_ep\<lparr>recv_queue :=
             [\<lparr>rx_context = 7, rx_flags = 0, rx_addr = 3, rx_tag = 0, rx_ignore = 0\<rparr>],
           recv_fs := [\<lparr>rx_context = 9, rx_flags = 0, rx_addr = 2, rx_tag = 0, rx_ignore = 0\<rparr>],
           rx_cq := [\<lparr>comp_context = 9, comp_op = 0, comp_flags = 0, comp_len = 0, comp_buf = 0,
                      comp_addr = 2, comp_tag = 0, comp_data = 0, comp_err = 125\<rparr>]\<rparr>) \<and>
   smr_ep_cancel 125 0 cq_write example_smr_ep 4 = (0, example_smr_ep)"
  using
    smr_ep_cancel_spec [of example_smr_ep "[]"
      "\<lparr>rx_context = 7, rx_flags = 0, rx_addr = 1, rx_tag = 5, rx_ignore = 0\<rparr>" "[]" 7
      125 0 cq_write]
    smr_ep_cancel_spec [of example_smr_ep "[]"
      "\<lparr>rx_context = 9, rx_flags = 0, rx_addr = 2, rx_tag = 0, rx_ignore = 0\<rparr>"
      "[\<lparr>rx_context = 7, rx_flags = 0, rx_addr = 3, rx_tag = 0, rx_ignore = 0\<rparr>]" 9
      125 0 cq_write]
    smr_ep_cancel_spec [of example_smr_ep "[]"
      "\<lparr>rx_context = 9, rx_flags = 0, rx_addr = 2, rx_tag = 0, rx_ignore = 0\<rparr>" "[]" 4
      125 0 cq_write]
  by (simp add: example_smr_ep_def cq_write_def)

lemma scast_ucast_c_int:
  fixes r :: ssize_t
  assumes "c_int_range (sint r)"
  shows "(scast (ucast r :: c_int) :: ssize_t) = r"
proof (rule signed_word_eqI [where ?'a = int])
  have r: "- (2 ^ 31) \<le> sint r" "sint r < 2 ^ 31"
    using assms by (simp_all add: c_int_range_def)
  have a: "sint (ucast r :: c_int) = signed_take_bit 31 (uint r)"
    by (simp add: signed_ucast_eq)
  have "signed_take_bit 31 (uint r) = signed_take_bit 31 (signed_take_bit 63 (uint r))"
    by (simp add: signed_take_bit_signed_take_bit)
  also have "\<dots> = signed_take_bit 31 (sint r)"
    by (simp add: sint_uint)
  also have "\<dots> = sint r"
    using r by (simp add: signed_take_bit_int_eq_self)
  finally have b: "sint (ucast r :: c_int) = sint r" using a by simp
  have "sint (scast (ucast r :: c_int) :: ssize_t) = signed_take_bit 63 (sint (ucast r :: c_int))"
    by (simp add: signed_scast_eq)
  also have "\<dots> = sint r"
    using r b by (simp add: signed_take_bit_int_eq_self)
  finally show "sint (scast (ucast r :: c_int) :: ssize_t) = sint r" .
qed

text \<open>
  Claim C6. \<open>efa_eq_write_error\<close> aborts the process exactly when the error event
  did not reach the event queue: no event queue is bound, or \<open>fi_eq_write\<close> did not
  return the full size of the entry (the comparison is made on the result as stored
  in the \<open>int ret\<close>, which is the result itself whenever it fits an \<open>int\<close>, as a byte
  count or a negative error code does). With a bound queue the write is attempted
  first, whatever follows; when it succeeds the function returns.
\<close>

theorem eq_write_error_aborts:
  "(is_aborted (efa_eq_write_error fi_eq_write sz ep e pe) \<longleftrightarrow>
      (case ep_eq ep of
         None \<Rightarrow> True
       | Some q \<Rightarrow>
           (scast (ucast (fst (fi_eq_write q \<lparr>err = ucast e, prov_errno = ucast pe\<rparr> sz)) :: c_int)
              :: size_t) \<noteq> sz)) \<and>
   (\<forall>q. ep_eq ep = Some q \<and>
         c_int_range (sint (fst (fi_eq_write q \<lparr>err = ucast e, prov_errno = ucast pe\<rparr> sz))) \<longrightarrow>
      (is_aborted (efa_eq_write_error fi_eq_write sz ep e pe) \<longleftrightarrow>
         fst (fi_eq_write q \<lparr>err = ucast e, prov_errno = ucast pe\<rparr> sz) \<noteq> sz)) \<and>
   (ep_eq ep = None \<longrightarrow> efa_eq_write_error fi_eq_write sz ep e pe = Aborted ep) \<and>
   (\<forall>q. ep_eq ep = Some q \<longrightarrow>
      final_state (efa_eq_write_error fi_eq_write sz ep e pe) =
        ep\<lparr>ep_eq := Some (snd (fi_eq_write q \<lparr>err = ucast e, prov_errno = ucast pe\<rparr> sz))\<rparr>)"
  by (auto simp: efa_eq_write_error_def Let_def scast_ucast_c_int split: option.splits prod.splits)

text \<open>
  Witness for C6: without an event queue the process aborts; with a queue that takes
  the 48-byte entry the function returns and the entry is in the queue; with a queue
  that refuses the process aborts.
\<close>

theorem eq_write_error_aborts_witness:
  "is_aborted (efa_eq_write_error eq_write 48 \<lparr>ep_eq = None\<rparr> 5 0) \<and>
   efa_eq_write_error eq_write 48 \<lparr>ep_eq = Some []\<rparr> 5 0 =
     Returned \<lparr>ep_eq = Some [\<lparr>err = 5, prov_errno = 0\<rparr>]\<rparr> \<and>
   is_aborted (efa_eq_write_error eq_write_fails 48 \<lparr>ep_eq = Some []\<rparr> 5 0)"
proof -
  have r1: "c_int_range (sint (fst (eq_write [] \<lparr>err = ucast (5 :: ssize_t),
              prov_errno = ucast (0 :: ssize_t)\<rparr> 48)))"
    by (simp add: eq_write_def c_int_range_def)
  have r2: "c_int_range (sint (fst (eq_write_fails [] \<lparr>err = ucast (5 :: ssize_t),
              prov_errno = ucast (0 :: ssize_t)\<rparr> 48)))"
    by (simp add: eq_write_fails_def c_int_range_def)
  have 1: "is_aborted (efa_eq_write_error eq_write 48 \<lparr>ep_eq = None\<rparr> 5 0)"
    using eq_write_error_aborts [of eq_write 48 "\<lparr>ep_eq = None\<rparr>" 5 0] by simp
  have 2: "\<not> is_aborted (efa_eq_write_error eq_write 48 \<lparr>ep_eq = Some []\<rparr> 5 0) \<and>
      final_state (efa_eq_write_error eq_write 48 \<lparr>ep_eq = Some []\<rparr> 5 0) =
        \<lparr>ep_eq = Some [\<lparr>err = 5, prov_errno = 0\<rparr>]\<rparr>"
    using eq_write_error_aborts [of eq_write 48 "\<lparr>ep_eq = Some []\<rparr>" 5 0] r1
    by (simp add: eq_write_def)
  have 3: "is_aborted (efa_eq_write_error eq_write_fails 48 \<lparr>ep_eq = Some []\<rparr> 5 0)"
    using eq_write_error_aborts [of eq_write_fails 48 "\<lparr>ep_eq = Some []\<rparr>" 5 0] r2
    by (simp add: eq_write_fails_def)
  from 2 have "efa_eq_write_error eq_write 48 \<lparr>ep_eq = Some []\<rparr> 5 0 =
     Returned \<lparr>ep_eq = Some [\<lparr>err = 5, prov_errno = 0\<rparr>]\<rparr>"
    by (cases "efa_eq_write_error eq_write 48 \<lparr>ep_eq = Some []\<rparr> 5 0") simp_all
  with 1 3 show ?thesis by simp
qed

lemma poison_loop_result:
  assumes "i \<le> n" "n \<le> length m"
  shows "rxr_poison_loop v i n m = Inr (take i m @ replicate (n - i) v @ drop n m)"
  using assms
proof (induction v i n m rule: rxr_poison_loop.induct)
  case (1 v i n ptr)
  show ?case
  proof (cases "i < n")
    case True
    then have il: "i < length ptr" using "1.prems" by simp
    have "rxr_poison_loop v (Suc i) n (ptr[i := v]) =
            Inr (take (Suc i) (ptr[i := v]) @ replicate (n - Suc i) v @ drop n (ptr[i := v]))"
      using "1.IH" [OF True il] True "1.prems" by simp
    moreover have "take (Suc i) (ptr[i := v]) = take i ptr @ [v]"
      using il by (simp add: take_Suc_conv_app_nth)
    moreover have "drop n (ptr[i := v]) = drop n ptr"
      using True by simp
    moreover have "replicate (n - i) v = v # replicate (n - Suc i) v"
      using True by (simp add: Suc_diff_Suc flip: replicate_Suc)
    ultimately show ?thesis
      using True il by (subst rxr_poison_loop.simps) simp
  next
    case False
    then have "i = n" using "1.prems" by simp
    then show ?thesis by (subst rxr_poison_loop.simps) simp
  qed
qed

lemma poison_mem_region_all:
  assumes "size' = 4 * length m"
  shows "rxr_poison_mem_region v m size' = Inr (replicate (length m) v)"
  using poison_loop_result [of 0 "length m" m v] assms
  by (simp add: rxr_poison_mem_region_def)

lemma release_tx_entry_result:
  assumes "tx_queued_pkts tx_entry = []"
    and "sizeof_entry layout = 4 * length (tx_mem tx_entry)"
    and "state_index layout < length (tx_mem tx_entry)"
  shows "rxr_release_tx_entry dbg poison v layout ep pool tx_entry =
           Inr (if dbg then ep\<lparr>tx_entry_list := remove1 (tx_ptr tx_entry) (tx_entry_list ep)\<rparr>
                else ep,
                tx_entry\<lparr>tx_mem :=
                  (if poison then replicate (length (tx_mem tx_entry)) v else tx_mem tx_entry)
                    [state_index layout := RXR_TX_FREE]\<rparr> # pool)"
  using assms
  by (simp add: rxr_release_tx_entry_def poison_mem_region_all dlist_empty_def
      dlist_remove_def ofi_buf_free_def Let_def)

lemma release_rx_entry_result:
  assumes "rx_queued_pkts rx_entry = []"
    and "sizeof_entry layout = 4 * length (rx_mem rx_entry)"
    and "state_index layout < length (rx_mem rx_entry)"
  shows "rxr_release_rx_entry dbg poison v layout ep pool rx_entry =
           Inr (if dbg then ep\<lparr>rx_entry_list := remove1 (rx_ptr rx_entry) (rx_entry_list ep)\<rparr>
                else ep,
                rx_entry\<lparr>rx_mem :=
                  (if poison then replicate (length (rx_mem rx_entry)) v else rx_mem rx_entry)
                    [state_index layout := RXR_RX_FREE]\<rparr> # pool)"
  using assms
  by (simp add: rxr_release_rx_entry_def poison_mem_region_all dlist_empty_def
      dlist_remove_def ofi_buf_free_def Let_def)

text \<open>
  Claim C7. For a tx entry (an rx entry) whose \<open>queued_pkts\<close> list is empty,
  \<open>rxr_release_tx_entry\<close> (\<open>rxr_release_rx_entry\<close>) sets its state to \<open>RXR_TX_FREE\<close>
  (\<open>RXR_RX_FREE\<close>) and returns it to its pool, where it is the next slot to be
  reused. With poisoning enabled the whole record is first overwritten, word by
  word, with \<open>rxr_poison_value\<close>, so that afterwards every word but \<open>state\<close> holds the
  sentinel; without it the other words keep their content. (The record is as large
  as its storage, and \<open>state\<close> lies inside it.)
\<close>

theorem release_entry_finalizes:
  assumes "tx_queued_pkts tx_entry = []"
    and "sizeof_entry tx_layout = 4 * length (tx_mem tx_entry)"
    and "state_index tx_layout < length (tx_mem tx_entry)"
    and "rx_queued_pkts rx_entry = []"
    and "sizeof_entry rx_layout = 4 * length (rx_mem rx_entry)"
    and "state_index rx_layout < length (rx_mem rx_entry)"
  shows "(\<exists>ep' e'. rxr_release_tx_entry dbg poison v tx_layout ep tx_pool tx_entry =
              Inr (ep', e' # tx_pool) \<and>
            tx_mem e' ! state_index tx_layout = RXR_TX_FREE \<and>
            tx_ptr e' = tx_ptr tx_entry \<and>
            tx_mem e' =
              (if poison then replicate (length (tx_mem tx_entry)) v else tx_mem tx_entry)
                [state_index tx_layout := RXR_TX_FREE] \<and>
            (poison \<longrightarrow> (\<forall>i < length (tx_mem tx_entry).
                          i \<noteq> state_index tx_layout \<longrightarrow> tx_mem e' ! i = v))) \<and>
         (\<exists>ep' e'. rxr_release_rx_entry dbg poison v rx_layout ep rx_pool rx_entry =
              Inr (ep', e' # rx_pool) \<and>
            rx_mem e' ! state_index rx_layout = RXR_RX_FREE \<and>
            rx_ptr e' = rx_ptr rx_entry \<and>
            rx_mem e' =
              (if poison then replicate (length (rx_mem rx_entry)) v else rx_mem rx_entry)
                [state_index rx_layout := RXR_RX_FREE] \<and>
            (poison \<longrightarrow> (\<forall>i < length (rx_mem rx_entry).
                          i \<noteq> state_index rx_layout \<longrightarrow> rx_mem e' ! i = v)))"
  using assms
  by (simp add: release_tx_entry_result release_rx_entry_result)

text \<open>
  Witness for C7: releasing the example entries with poisoning enabled and the
  sentinel \<open>0xdeadbeef\<close> (3735928559), in a build without \<open>ENABLE_DEBUG\<close>.
\<close>

theorem release_entry_finalizes_witness:
  "(\<exists>ep' e'. rxr_release_tx_entry False True 3735928559 example_layout example_ep []
        example_tx_entry = Inr (ep', [e']) \<and>
      tx_mem e' = [3735928559, 3735928559, 0, 3735928559]) \<and>
   (\<exists>ep' e'. rxr_release_rx_entry False True 3735928559 example_layout example_ep []
        example_rx_entry = Inr (ep', [e']) \<and>
      rx_mem e' = [3735928559, 3735928559, 0, 3735928559])"
proof -
  have h: "tx_queued_pkts example_tx_entry = []"
    "sizeof_entry example_layout = 4 * length (tx_mem example_tx_entry)"
    "state_index example_layout < length (tx_mem example_tx_entry)"
    "rx_queued_pkts example_rx_entry = []"
    "sizeof_entry example_layout = 4 * length (rx_mem example_rx_entry)"
    "state_index example_layout < length (rx_mem example_rx_entry)"
    by (simp_all add: example_tx_entry_def example_rx_entry_def example_layout_def)
  have m: "(replicate (length (tx_mem example_tx_entry)) (3735928559 :: uint32_t))
             [state_index example_layout := RXR_TX_FREE] = [3735928559, 3735928559, 0, 3735928559]"
    "(replicate (length (rx_mem example_rx_entry)) (3735928559 :: uint32_t))
             [state_index example_layout := RXR_RX_FREE] = [3735928559, 3735928559, 0, 3735928559]"
    by (simp_all add: example_tx_entry_def example_rx_entry_def example_layout_def
        RXR_TX_FREE_def RXR_RX_FREE_def numeral_eq_Suc)
  from release_entry_finalizes [OF h, of False True 3735928559 example_ep "[]" "[]"] m
  show ?thesis
    by auto
qed


text \<open>
  Claim C8, as stated, fails: \<open>rxr_mr_regv\<close> does not leave \<open>iface\<close> as it found it.
  Started on storage that holds the CUDA interface, it still hands the system
  interface on, because it assigns \<open>iface\<close> itself.
\<close>

theorem mr_reg_iface_counterexample:
  "\<not> (rxr_mr_regv reports_iface example_attr 0 [] 0 0 0 0 0 0 = iface example_attr)"
  by (simp add: rxr_mr_regv_def reports_iface_def example_attr_def)

text \<open>
  Claim C8, amended. \<open>rxr_mr_regv\<close> sets \<open>iface\<close> to \<open>FI_HMEM_SYSTEM\<close> itself: whatever the
  local attribute structure held before, in every call through \<open>rxr_mr_reg\<close> or
  \<open>rxr_mr_regv\<close> the attributes handed to \<open>rxr_mr_regattr\<close> carry
  \<open>iface = FI_HMEM_SYSTEM\<close>. (The field that is handed on as found is \<open>device\<close>.)
\<close>

theorem mr_reg_iface:
  "(\<exists>a. iface a = FI_HMEM_SYSTEM \<and> device a = device attr0 \<and>
        (\<forall>f. rxr_mr_regv f attr0 d iov count acc off key fl ctx = f d a fl)) \<and>
   (\<exists>a. iface a = FI_HMEM_SYSTEM \<and> device a = device attr0 \<and>
        (\<forall>f. rxr_mr_reg f attr0 d buf len acc off key fl ctx = f d a fl))"
proof (intro conjI)
  show "\<exists>a. iface a = FI_HMEM_SYSTEM \<and> device a = device attr0 \<and>
        (\<forall>f. rxr_mr_regv f attr0 d iov count acc off key fl ctx = f d a fl)"
    by (rule exI [of _ "attr0\<lparr>mr_iov := iov, iov_count := count, access := acc,
                   offset := off, requested_key := key,
                   mr_context := ctx, iface := FI_HMEM_SYSTEM\<rparr>"])
       (simp add: rxr_mr_regv_def)
  show "\<exists>a. iface a = FI_HMEM_SYSTEM \<and> device a = device attr0 \<and>
        (\<forall>f. rxr_mr_reg f attr0 d buf len acc off key fl ctx = f d a fl)"
    by (rule exI [of _ "attr0\<lparr>mr_iov := [\<lparr>iov_base = buf, iov_len = len\<rparr>], iov_count := 1, access := acc,
                   offset := off, requested_key := key,
                   mr_context := ctx, iface := FI_HMEM_SYSTEM\<rparr>"])
       (simp add: rxr_mr_reg_def rxr_mr_regv_def)
qed

lemma sum_list_map_update:
  fixes f :: "'a \<Rightarrow> 'b::ab_group_add"
  assumes "i < length xs"
  shows "sum_list (map f (xs[i := y])) = sum_list (map f xs) - f (xs ! i) + f y"
  using assms
  by (induction xs arbitrary: i) (auto simp: nth_Cons' algebra_simps split: nat.splits)

lemma sum_list_map_update_nat:
  fixes f :: "'a \<Rightarrow> nat"
  assumes "i < length xs"
  shows "sum_list (map f (xs[i := y])) + f (xs ! i) = sum_list (map f xs) + f y"
  using assms
  by (induction xs arbitrary: i) (auto simp: nth_Cons' split: nat.splits)

lemma elem_le_sum_list_map:
  fixes f :: "'a \<Rightarrow> nat"
  assumes "i < length xs"
  shows "f (xs ! i) \<le> sum_list (map f xs)"
  using assms member_le_sum_list [of "f (xs ! i)" "map f xs"] by simp

lemma unat_inc:
  fixes x :: size_t
  assumes "unat x + 1 < 2 ^ 64"
  shows "unat (x + 1) = unat x + 1"
  using assms unat_add_lem [of x 1] by simp

lemma unat_dec:
  fixes x :: size_t
  assumes "0 < unat x"
  shows "unat (x - 1) = unat x - 1"
  using assms by (simp add: unat_minus_one unat_gt_0)

lemma inc_tx_pending_fields:
  assumes "p < length (peer ep)"
  shows "\<exists>ep'. rxr_ep_inc_tx_pending dbg ep p = Inr ep' \<and>
    ep_tx_pending ep' = ep_tx_pending ep + 1 \<and>
    peer ep' = (peer ep)[p := (peer ep ! p)\<lparr>tx_pending := tx_pending (peer ep ! p) + 1\<rparr>] \<and>
    sends ep' = (if dbg then sends ep + 1 else sends ep) \<and>
    ep'\<lparr>ep_tx_pending := ep_tx_pending ep, peer := peer ep, sends := sends ep\<rparr> = ep"
  using assms by (simp add: rxr_ep_inc_tx_pending_def Let_def)

lemma dec_tx_pending_fields:
  assumes "p < length (peer ep)"
  shows "\<exists>ep'. rxr_ep_dec_tx_pending dbg ep p failed = Inr ep' \<and>
    ep_tx_pending ep' = ep_tx_pending ep - 1 \<and>
    peer ep' = (peer ep)[p := (peer ep ! p)\<lparr>tx_pending := tx_pending (peer ep ! p) - 1\<rparr>] \<and>
    failed_send_comps ep' =
      (if dbg \<and> failed \<noteq> 0 then failed_send_comps ep + 1 else failed_send_comps ep) \<and>
    ep'\<lparr>ep_tx_pending := ep_tx_pending ep, peer := peer ep,
        failed_send_comps := failed_send_comps ep\<rparr> = ep"
  using assms by (simp add: rxr_ep_dec_tx_pending_def Let_def)

lemma step_sum:
  assumes "call_peer c < length (peer ep)" "ep_tx_pending ep = tx_pending_sum ep"
  shows "\<exists>ep'. tx_pending_step dbg ep c = Inr ep' \<and> ep_tx_pending ep' = tx_pending_sum ep' \<and>
     length (peer ep') = length (peer ep)"
proof (cases c)
  case (Inc_tx_pending p)
  then have p: "p < length (peer ep)" using assms(1) by simp
  from inc_tx_pending_fields [OF p, of dbg] obtain ep' where
    "rxr_ep_inc_tx_pending dbg ep p = Inr ep'" "ep_tx_pending ep' = ep_tx_pending ep + 1"
    "peer ep' = (peer ep)[p := (peer ep ! p)\<lparr>tx_pending := tx_pending (peer ep ! p) + 1\<rparr>]"
    by blast
  then show ?thesis
    using Inc_tx_pending p assms(2) by (simp add: tx_pending_sum_def sum_list_map_update)
next
  case (Dec_tx_pending p failed)
  then have p: "p < length (peer ep)" using assms(1) by simp
  from dec_tx_pending_fields [OF p, of dbg failed] obtain ep' where
    "rxr_ep_dec_tx_pending dbg ep p failed = Inr ep'" "ep_tx_pending ep' = ep_tx_pending ep - 1"
    "peer ep' = (peer ep)[p := (peer ep ! p)\<lparr>tx_pending := tx_pending (peer ep ! p) - 1\<rparr>]"
    by blast
  then show ?thesis
    using Dec_tx_pending p assms(2) by (simp add: tx_pending_sum_def sum_list_map_update)
qed

lemma calls_sum:
  assumes "\<forall>c \<in> set cs. call_peer c < length (peer ep)" "ep_tx_pending ep = tx_pending_sum ep"
  shows "\<exists>ep'. tx_pending_calls dbg ep cs = Inr ep' \<and> ep_tx_pending ep' = tx_pending_sum ep'"
  using assms
proof (induction cs arbitrary: ep)
  case Nil
  then show ?case by simp
next
  case (Cons c cs)
  from step_sum [of c ep dbg] Cons.prems obtain ep1 where
    s: "tx_pending_step dbg ep c = Inr ep1" "ep_tx_pending ep1 = tx_pending_sum ep1"
       "length (peer ep1) = length (peer ep)"
    by auto
  have "\<forall>c \<in> set cs. call_peer c < length (peer ep1)"
    using Cons.prems(1) s(3) by simp
  from Cons.IH [OF this s(2)] show ?case
    using s(1) by simp
qed

lemma step_total:
  assumes c: "call_peer c < length (peer ep)"
    and pr: "paired out (c # cs)"
    and out: "\<forall>p < length (peer ep). out p \<le> unat (tx_pending (peer ep ! p))"
    and tot: "unat (ep_tx_pending ep) = tx_pending_total ep"
    and bound: "tx_pending_total ep + length (c # cs) < 2 ^ 64"
  shows "\<exists>ep' out'. tx_pending_step dbg ep c = Inr ep' \<and> paired out' cs \<and>
     length (peer ep') = length (peer ep) \<and>
     (\<forall>p < length (peer ep'). out' p \<le> unat (tx_pending (peer ep' ! p))) \<and>
     unat (ep_tx_pending ep') = tx_pending_total ep' \<and>
     tx_pending_total ep' + length cs < 2 ^ 64"
proof (cases c)
  case (Inc_tx_pending p)
  then have p: "p < length (peer ep)" using c by simp
  from inc_tx_pending_fields [OF p, of dbg] obtain ep' where
    e: "rxr_ep_inc_tx_pending dbg ep p = Inr ep'" "ep_tx_pending ep' = ep_tx_pending ep + 1"
    "peer ep' = (peer ep)[p := (peer ep ! p)\<lparr>tx_pending := tx_pending (peer ep ! p) + 1\<rparr>]"
    by blast
  let ?f = "\<lambda>q. unat (tx_pending q)"
  have le: "?f (peer ep ! p) \<le> tx_pending_total ep"
    unfolding tx_pending_total_def using p by (rule elem_le_sum_list_map)
  have up: "unat (tx_pending (peer ep ! p) + 1) = ?f (peer ep ! p) + 1"
    using le bound by (intro unat_inc) simp
  have t': "tx_pending_total ep' = tx_pending_total ep + 1"
    using sum_list_map_update_nat [of p "peer ep" ?f "(peer ep ! p)\<lparr>tx_pending := tx_pending (peer ep ! p) + 1\<rparr>"] p up
    by (simp add: tx_pending_total_def e(3))
  have e': "unat (ep_tx_pending ep') = unat (ep_tx_pending ep) + 1"
    unfolding e(2) using tot bound by (intro unat_inc) simp
  have o': "\<forall>q < length (peer ep'). (out(p := Suc (out p))) q \<le> unat (tx_pending (peer ep' ! q))"
    using out p up by (auto simp: e(3) nth_list_update)
  show ?thesis
    using Inc_tx_pending e(1) pr o' t' e' tot bound
    by (intro exI [of _ ep'] exI [of _ "out(p := Suc (out p))"]) (simp add: e(3))
next
  case (Dec_tx_pending p failed)
  then have p: "p < length (peer ep)" using c by simp
  from dec_tx_pending_fields [OF p, of dbg failed] obtain ep' where
    e: "rxr_ep_dec_tx_pending dbg ep p failed = Inr ep'" "ep_tx_pending ep' = ep_tx_pending ep - 1"
    "peer ep' = (peer ep)[p := (peer ep ! p)\<lparr>tx_pending := tx_pending (peer ep ! p) - 1\<rparr>]"
    by blast
  let ?f = "\<lambda>q. unat (tx_pending q)"
  have pos: "0 < out p" and pr': "paired (out(p := out p - 1)) cs"
    using pr Dec_tx_pending by simp_all
  have pos_p: "0 < ?f (peer ep ! p)"
    using pos out p by (metis less_le_trans)
  have le: "?f (peer ep ! p) \<le> tx_pending_total ep"
    unfolding tx_pending_total_def using p by (rule elem_le_sum_list_map)
  have up: "unat (tx_pending (peer ep ! p) - 1) = ?f (peer ep ! p) - 1"
    using pos_p by (rule unat_dec)
  have t': "tx_pending_total ep' + 1 = tx_pending_total ep"
    using sum_list_map_update_nat [of p "peer ep" ?f "(peer ep ! p)\<lparr>tx_pending := tx_pending (peer ep ! p) - 1\<rparr>"] p up pos_p
    by (simp add: tx_pending_total_def e(3))
  have e': "unat (ep_tx_pending ep') = unat (ep_tx_pending ep) - 1"
    unfolding e(2) using tot le pos_p by (intro unat_dec) simp
  have o': "\<forall>q < length (peer ep'). (out(p := out p - 1)) q \<le> unat (tx_pending (peer ep' ! q))"
    using out p up by (auto simp: e(3) nth_list_update)
  show ?thesis
    using Dec_tx_pending e(1) pr' o' t' e' tot bound
    by (intro exI [of _ ep'] exI [of _ "out(p := out p - 1)"]) (simp add: e(3))
qed

lemma calls_total:
  assumes "paired out cs"
    and "\<forall>c \<in> set cs. call_peer c < length (peer ep)"
    and "\<forall>p < length (peer ep). out p \<le> unat (tx_pending (peer ep ! p))"
    and "unat (ep_tx_pending ep) = tx_pending_total ep"
    and "tx_pending_total ep + length cs < 2 ^ 64"
  shows "\<exists>ep'. tx_pending_calls dbg ep cs = Inr ep' \<and>
           unat (ep_tx_pending ep') = tx_pending_total ep'"
  using assms
proof (induction cs arbitrary: ep out)
  case Nil
  then show ?case by simp
next
  case (Cons c cs)
  have c: "call_peer c < length (peer ep)" using Cons.prems(2) by simp
  from step_total [OF c Cons.prems(1) Cons.prems(3) Cons.prems(4) Cons.prems(5), of dbg]
  obtain ep1 out1 where s: "tx_pending_step dbg ep c = Inr ep1" "paired out1 cs"
     "length (peer ep1) = length (peer ep)"
     "\<forall>p < length (peer ep1). out1 p \<le> unat (tx_pending (peer ep1 ! p))"
     "unat (ep_tx_pending ep1) = tx_pending_total ep1"
     "tx_pending_total ep1 + length cs < 2 ^ 64"
    by blast
  have v: "\<forall>c \<in> set cs. call_peer c < length (peer ep1)"
    using Cons.prems(2) s(3) by simp
  from Cons.IH [OF s(2) v s(4) s(5) s(6)] show ?case
    using s(1) by simp
qed

text \<open>
  Claim C10, as stated, fails in a build with \<open>ENABLE_DEBUG\<close>: there
  \<open>rxr_ep_inc_tx_pending\<close> also counts the send in \<open>ep->sends\<close>, so the result is not
  the endpoint with only the two \<open>tx_pending\<close> counters incremented.
\<close>

theorem tx_pending_counterexample:
  "\<not> (rxr_ep_inc_tx_pending True example_ep 0 =
        Inr (example_ep\<lparr>ep_tx_pending := ep_tx_pending example_ep + 1,
               peer := (peer example_ep)
                 [0 := (peer example_ep ! 0)
                    \<lparr>tx_pending := tx_pending (peer example_ep ! 0) + 1\<rparr>]\<rparr>))"
  by (simp add: rxr_ep_inc_tx_pending_def example_ep_def Let_def)

text \<open>
  Claim C10, amended. \<open>rxr_ep_inc_tx_pending\<close> adds one to \<open>ep->tx_pending\<close> and to
  the peer's \<open>tx_pending\<close>, \<open>rxr_ep_dec_tx_pending\<close> subtracts one from both (as
  \<open>size_t\<close> values). No other peer and no other field is modified, except that a build
  with \<open>ENABLE_DEBUG\<close> also increments the statistics counter \<open>sends\<close> on an
  increment and \<open>failed_send_comps\<close> on a decrement with \<open>failed\<close> set. Hence over
  every sequence of such calls the endpoint counter stays equal to the sum of the
  per-peer counters taken as \<open>size_t\<close>; and over every paired sequence that does not
  push the total to \<open>2 ^ 64\<close> it stays equal to their sum as numbers.
\<close>

theorem tx_pending_counters:
  "(p < length (peer ep) \<longrightarrow>
      (\<exists>ep'. rxr_ep_inc_tx_pending dbg ep p = Inr ep' \<and>
         ep_tx_pending ep' = ep_tx_pending ep + 1 \<and>
         peer ep' = (peer ep)[p := (peer ep ! p)\<lparr>tx_pending := tx_pending (peer ep ! p) + 1\<rparr>] \<and>
         sends ep' = (if dbg then sends ep + 1 else sends ep) \<and>
         ep'\<lparr>ep_tx_pending := ep_tx_pending ep, peer := peer ep, sends := sends ep\<rparr> = ep) \<and>
      (\<exists>ep'. rxr_ep_dec_tx_pending dbg ep p failed = Inr ep' \<and>
         ep_tx_pending ep' = ep_tx_pending ep - 1 \<and>
         peer ep' = (peer ep)[p := (peer ep ! p)\<lparr>tx_pending := tx_pending (peer ep ! p) - 1\<rparr>] \<and>
         failed_send_comps ep' =
           (if dbg \<and> failed \<noteq> 0 then failed_send_comps ep + 1 else failed_send_comps ep) \<and>
         ep'\<lparr>ep_tx_pending := ep_tx_pending ep, peer := peer ep,
             failed_send_comps := failed_send_comps ep\<rparr> = ep)) \<and>
   ((\<forall>c \<in> set cs. call_peer c < length (peer ep)) \<and> ep_tx_pending ep = tx_pending_sum ep \<longrightarrow>
      (\<exists>ep'. tx_pending_calls dbg ep cs = Inr ep' \<and> ep_tx_pending ep' = tx_pending_sum ep')) \<and>
   (paired (\<lambda>q. 0) cs \<and> (\<forall>c \<in> set cs. call_peer c < length (peer ep)) \<and>
    unat (ep_tx_pending ep) = tx_pending_total ep \<and> tx_pending_total ep + length cs < 2 ^ 64 \<longrightarrow>
      (\<exists>ep'. tx_pending_calls dbg ep cs = Inr ep' \<and>
         unat (ep_tx_pending ep') = tx_pending_total ep'))"
proof (intro conjI impI)
  assume "p < length (peer ep)"
  then show "\<exists>ep'. rxr_ep_inc_tx_pending dbg ep p = Inr ep' \<and>
         ep_tx_pending ep' = ep_tx_pending ep + 1 \<and>
         peer ep' = (peer ep)[p := (peer ep ! p)\<lparr>tx_pending := tx_pending (peer ep ! p) + 1\<rparr>] \<and>
         sends ep' = (if dbg then sends ep + 1 else sends ep) \<and>
         ep'\<lparr>ep_tx_pending := ep_tx_pending ep, peer := peer ep, sends := sends ep\<rparr> = ep"
    by (rule inc_tx_pending_fields)
next
  assume "p < length (peer ep)"
  then show "\<exists>ep'. rxr_ep_dec_tx_pending dbg ep p failed = Inr ep' \<and>
         ep_tx_pending ep' = ep_tx_pending ep - 1 \<and>
         peer ep' = (peer ep)[p := (peer ep ! p)\<lparr>tx_pending := tx_pending (peer ep ! p) - 1\<rparr>] \<and>
         failed_send_comps ep' =
           (if dbg \<and> failed \<noteq> 0 then failed_send_comps ep + 1 else failed_send_comps ep) \<and>
         ep'\<lparr>ep_tx_pending := ep_tx_pending ep, peer := peer ep,
             failed_send_comps := failed_send_comps ep\<rparr> = ep"
    by (rule dec_tx_pending_fields)
next
  assume "(\<forall>c \<in> set cs. call_peer c < length (peer ep)) \<and> ep_tx_pending ep = tx_pending_sum ep"
  then show "\<exists>ep'. tx_pending_calls dbg ep cs = Inr ep' \<and> ep_tx_pending ep' = tx_pending_sum ep'"
    using calls_sum [of cs ep dbg] by blast
next
  assume a: "paired (\<lambda>q. 0) cs \<and> (\<forall>c \<in> set cs. call_peer c < length (peer ep)) \<and>
    unat (ep_tx_pending ep) = tx_pending_total ep \<and> tx_pending_total ep + length cs < 2 ^ 64"
  have "\<forall>q < length (peer ep). (\<lambda>q. 0 :: nat) q \<le> unat (tx_pending (peer ep ! q))"
    by simp
  with a show "\<exists>ep'. tx_pending_calls dbg ep cs = Inr ep' \<and>
         unat (ep_tx_pending ep') = tx_pending_total ep'"
    using calls_total [of "\<lambda>q. 0" cs ep dbg] by blast
qed

text \<open>
  Witness for C10: on the example endpoint, a send to peer 0 and a send to peer 1,
  then their two completions (the second one failed), in a build without
  \<open>ENABLE_DEBUG\<close>.
\<close>

theorem tx_pending_counters_witness:
  "0 < length (peer example_ep) \<and>
   paired (\<lambda>q. 0) [Inc_tx_pending 0, Inc_tx_pending 1, Dec_tx_pending 0 0, Dec_tx_pending 1 1] \<and>
   ep_tx_pending example_ep = tx_pending_sum example_ep \<and>
   unat (ep_tx_pending example_ep) = tx_pending_total example_ep \<and>
   (\<exists>ep'. rxr_ep_inc_tx_pending False example_ep 0 = Inr ep' \<and> ep_tx_pending ep' = 1 \<and>
      sends ep' = sends example_ep) \<and>
   (\<exists>ep'. tx_pending_calls False example_ep
        [Inc_tx_pending 0, Inc_tx_pending 1, Dec_tx_pending 0 0, Dec_tx_pending 1 1] = Inr ep' \<and>
      ep_tx_pending ep' = tx_pending_sum ep') \<and>
   (\<exists>ep'. tx_pending_calls False example_ep
        [Inc_tx_pending 0, Inc_tx_pending 1, Dec_tx_pending 0 0, Dec_tx_pending 1 1] = Inr ep' \<and>
      unat (ep_tx_pending ep') = tx_pending_total ep')"
proof -
  let ?cs = "[Inc_tx_pending 0, Inc_tx_pending 1, Dec_tx_pending 0 0, Dec_tx_pending 1 1]"
  have h1: "0 < length (peer example_ep)"
    by (simp add: example_ep_def)
  have h2: "\<forall>c \<in> set ?cs. call_peer c < length (peer example_ep)"
    by (simp add: example_ep_def)
  have h3: "ep_tx_pending example_ep = tx_pending_sum example_ep"
    by (simp add: example_ep_def example_peer_def tx_pending_sum_def)
  have h4: "paired (\<lambda>q. 0) ?cs"
    by simp
  have h5: "unat (ep_tx_pending example_ep) = tx_pending_total example_ep"
    by (simp add: example_ep_def example_peer_def tx_pending_total_def)
  have h6: "tx_pending_total example_ep + length ?cs < 2 ^ 64"
    by (simp add: example_ep_def example_peer_def tx_pending_total_def)
  note t = tx_pending_counters [of 0 example_ep False 0 ?cs]
  from t h1 have "\<exists>ep'. rxr_ep_inc_tx_pending False example_ep 0 = Inr ep' \<and>
      ep_tx_pending ep' = ep_tx_pending example_ep + 1 \<and> sends ep' = sends example_ep"
    by auto
  then have c1: "\<exists>ep'. rxr_ep_inc_tx_pending False example_ep 0 = Inr ep' \<and>
      ep_tx_pending ep' = 1 \<and> sends ep' = sends example_ep"
    by (simp add: example_ep_def)
  from t h2 h3 have c2: "\<exists>ep'. tx_pending_calls False example_ep ?cs = Inr ep' \<and>
      ep_tx_pending ep' = tx_pending_sum ep'"
    by blast
  from t h2 h4 h5 h6 have c3: "\<exists>ep'. tx_pending_calls False example_ep ?cs = Inr ep' \<and>
      unat (ep_tx_pending ep') = tx_pending_total ep'"
    by blast
  from h1 h3 h4 h5 c1 c2 c3 show ?thesis by blast
qed

end
